theory Spec2Isabelle
  imports Main "HOL-Library.AList"
begin

section \<open>Python values\<close>

text \<open>
  The agents pass around untyped Python values: tool inputs produced by the language
  model and bodies parsed from JSON. A dictionary is an association list in insertion
  order, its keys strings (as in every JSON object). Floats are left out.
\<close>

datatype pyval =
    PNone
  | PBool bool
  | PInt int
  | PStr string
  | PList "pyval list"
  | PDict "(string \<times> pyval) list"

type_synonym pydict = "(string \<times> pyval) list"

text \<open>Python's truth value of an object (\<open>if x\<close>, \<open>not x\<close>).\<close>

fun truthy :: "pyval \<Rightarrow> bool" where
  "truthy PNone = False"
| "truthy (PBool b) = b"
| "truthy (PInt i) = (i \<noteq> 0)"
| "truthy (PStr s) = (s \<noteq> [])"
| "truthy (PList xs) = (xs \<noteq> [])"
| "truthy (PDict d) = (d \<noteq> [])"

text \<open>\<open>x == 0\<close>: besides the integer zero, \<open>False == 0\<close> holds in Python.\<close>

fun eq_zero :: "pyval \<Rightarrow> bool" where
  "eq_zero (PInt i) = (i = 0)"
| "eq_zero (PBool b) = (\<not> b)"
| "eq_zero _ = False"

text \<open>\<open>d.get(k, default)\<close> and \<open>k in d\<close> on a dictionary.\<close>

definition dict_get :: "pydict \<Rightarrow> string \<Rightarrow> pyval \<Rightarrow> pyval" where
  "dict_get d k dflt = (case map_of d k of Some v \<Rightarrow> v | None \<Rightarrow> dflt)"

definition has_key :: "pydict \<Rightarrow> string \<Rightarrow> bool" where
  "has_key d k = (map_of d k \<noteq> None)"

definition dict_keys :: "pydict \<Rightarrow> string list" where
  "dict_keys d = map fst d"

text \<open>The result shape \<open>{"error": msg}\<close> that every layer returns on failure.\<close>

definition error_dict :: "string \<Rightarrow> pydict" where
  "error_dict msg = [(''error'', PStr msg)]"

section \<open>Input validator (netbox\_agent.validate\_tool\_input)\<close>

text \<open>
  The dictionary comprehension
  \<^verbatim>\<open>{key: input_data[key] for key in expected_keys if key in input_data}\<close>:
  the expected keys are visited in order, a key seen again overwrites its own entry.
\<close>

definition strip_keys :: "string list \<Rightarrow> pydict \<Rightarrow> pydict" where
  "strip_keys expected_keys input_data =
     fold (\<lambda>key acc. case map_of input_data key of
                        Some v \<Rightarrow> AList.update key v acc
                      | None \<Rightarrow> acc)
          expected_keys []"

text \<open>
  The first step of a pass: a string is parsed with \<open>json.loads\<close>, which is a parameter
  of the model (\<open>None\<close> stands for \<open>JSONDecodeError\<close>); anything else is kept. A string
  on which \<open>json.loads\<close> raises another exception (a number of several thousand digits)
  is outside the model.
\<close>

definition parse_input :: "(string \<Rightarrow> pyval option) \<Rightarrow> pyval \<Rightarrow> pyval option" where
  "parse_input json_loads input_data =
     (case input_data of PStr s \<Rightarrow> json_loads s | _ \<Rightarrow> Some input_data)"

text \<open>
  The \<open>while retries < max_retries\<close> loop, with the loop variable \<open>retries\<close> as an
  argument. The test \<open>expected_keys and len(input_data) > len(expected_keys)\<close> treats
  \<open>None\<close> and \<open>[]\<close> as false. \<open>time.sleep\<close> and logging have no effect on the result
  and are left out.
\<close>

function validate_loop ::
  "(string \<Rightarrow> pyval option) \<Rightarrow> pyval \<Rightarrow> string list option \<Rightarrow> int \<Rightarrow> int \<Rightarrow> pydict" where
  "validate_loop json_loads input_data expected_keys max_retries retries =
     (if retries < max_retries then
        (case parse_input json_loads input_data of
           None \<Rightarrow> error_dict ''Invalid JSON format.''
         | Some (PDict d) \<Rightarrow>
             (case expected_keys of
                None \<Rightarrow> d
              | Some ks \<Rightarrow>
                  if ks \<noteq> [] \<and> length d > length ks
                  then validate_loop json_loads (PDict (strip_keys ks d))
                         expected_keys max_retries (retries + 1)
                  else d)
         | Some _ \<Rightarrow> error_dict ''Invalid input format. Expected JSON object.'')
      else error_dict ''Too many arguments provided, and retries exceeded.'')"
  by pat_completeness auto
termination
  by (relation "measure (\<lambda>(jl, inp, ek, max_retries, retries). nat (max_retries - retries))") auto

definition validate_tool_input ::
  "(string \<Rightarrow> pyval option) \<Rightarrow> pyval \<Rightarrow> string list option \<Rightarrow> int \<Rightarrow> pydict" where
  "validate_tool_input json_loads input_data expected_keys max_retries =
     validate_loop json_loads input_data expected_keys max_retries 0"

section \<open>Strings\<close>

text \<open>
  A Python \<open>str\<close> is modelled as the list of its code points, and a character of the
  model is a Unicode code point below 256 (the Latin-1 range); strings with other code
  points are outside the model. On this range \<open>str.strip()\<close> removes the twelve
  whitespace characters listed in \<open>is_space\<close>, among them U+0085 and U+00A0, and
  \<open>str.lower()\<close> maps \<open>A\<close> to \<open>Z\<close> and the letters U+00C0 to U+00DE (U+00D7, the
  multiplication sign, apart) to the character 32 places further on, and nothing else.
\<close>

definition sq :: string where
  "sq = [CHR 0x27]"

definition is_space :: "char \<Rightarrow> bool" where
  "is_space c = (c \<in> set [CHR 0x09, CHR 0x0A, CHR 0x0B, CHR 0x0C, CHR 0x0D,
                           CHR 0x1C, CHR 0x1D, CHR 0x1E, CHR 0x1F, CHR 0x20,
                           CHR 0x85, CHR 0xA0])"

definition lower_letters :: string where
  "lower_letters = ''abcdefghijklmnopqrstuvwxyz''"

definition upper_letters :: string where
  "upper_letters = ''ABCDEFGHIJKLMNOPQRSTUVWXYZ''"

definition upper_latin :: string where
  "upper_latin =
     [CHR 0xC0, CHR 0xC1, CHR 0xC2, CHR 0xC3, CHR 0xC4, CHR 0xC5, CHR 0xC6, CHR 0xC7,
     CHR 0xC8, CHR 0xC9, CHR 0xCA, CHR 0xCB, CHR 0xCC, CHR 0xCD, CHR 0xCE, CHR 0xCF,
     CHR 0xD0, CHR 0xD1, CHR 0xD2, CHR 0xD3, CHR 0xD4, CHR 0xD5, CHR 0xD6, CHR 0xD8,
     CHR 0xD9, CHR 0xDA, CHR 0xDB, CHR 0xDC, CHR 0xDD, CHR 0xDE]"

definition lower_latin :: string where
  "lower_latin =
     [CHR 0xE0, CHR 0xE1, CHR 0xE2, CHR 0xE3, CHR 0xE4, CHR 0xE5, CHR 0xE6, CHR 0xE7,
     CHR 0xE8, CHR 0xE9, CHR 0xEA, CHR 0xEB, CHR 0xEC, CHR 0xED, CHR 0xEE, CHR 0xEF,
     CHR 0xF0, CHR 0xF1, CHR 0xF2, CHR 0xF3, CHR 0xF4, CHR 0xF5, CHR 0xF6, CHR 0xF8,
     CHR 0xF9, CHR 0xFA, CHR 0xFB, CHR 0xFC, CHR 0xFD, CHR 0xFE]"

text \<open>The class \<open>[a-z]\<close> of a regular expression.\<close>

definition is_lower :: "char \<Rightarrow> bool" where
  "is_lower c = (c \<in> set lower_letters)"

definition lower_char :: "char \<Rightarrow> char" where
  "lower_char c =
     (case map_of (zip (upper_letters @ upper_latin) (lower_letters @ lower_latin)) c of
        Some l \<Rightarrow> l
      | None \<Rightarrow> c)"

definition py_lower :: "string \<Rightarrow> string" where
  "py_lower s = map lower_char s"

definition py_strip :: "string \<Rightarrow> string" where
  "py_strip s = rev (dropWhile is_space (rev (dropWhile is_space s)))"

definition py_lstrip :: "char \<Rightarrow> string \<Rightarrow> string" where
  "py_lstrip c s = dropWhile (\<lambda>x. x = c) s"

definition py_rstrip :: "char \<Rightarrow> string \<Rightarrow> string" where
  "py_rstrip c s = rev (dropWhile (\<lambda>x. x = c) (rev s))"

definition py_replace :: "char \<Rightarrow> char \<Rightarrow> string \<Rightarrow> string" where
  "py_replace old new s = map (\<lambda>c. if c = old then new else c) s"

text \<open>\<open>s.split(sep)\<close> for a one-character separator, and \<open>sep.join(parts)\<close>.\<close>

fun py_split :: "char \<Rightarrow> string \<Rightarrow> string list" where
  "py_split sep [] = [[]]"
| "py_split sep (c # cs) =
     (if c = sep then [] # py_split sep cs
      else (case py_split sep cs of
              w # ws \<Rightarrow> (c # w) # ws
            | [] \<Rightarrow> [[c]]))"

fun py_join :: "string \<Rightarrow> string list \<Rightarrow> string" where
  "py_join sep [] = []"
| "py_join sep [w] = w"
| "py_join sep (w # ws) = w @ sep @ py_join sep ws"

text \<open>\<open>str(n)\<close> of an integer, in decimal.\<close>

definition digit :: "nat \<Rightarrow> char" where
  "digit n = ''0123456789'' ! n"

fun str_nat :: "nat \<Rightarrow> string" where
  "str_nat n =
     (if n < 10 then [digit n]
      else str_nat (n div 10) @ [digit (n mod 10)])"

definition str_int :: "int \<Rightarrow> string" where
  "str_int i = (if i < 0 then ''-'' @ str_nat (nat (- i)) else str_nat (nat i))"

section \<open>Exceptions and the interpreter's library\<close>

text \<open>
  The exceptions the code can meet. The argument of the built-in ones is the object the
  operation failed on (for \<open>KeyError\<close>, the key). \<open>Library_error\<close> is an exception
  raised inside \<open>requests\<close> that is not a \<open>RequestException\<close>, with its text.
\<close>

datatype py_exception =
    AttributeError pyval string
  | KeyError pyval
  | IndexError pyval
  | TypeError pyval
  | Library_error string

text \<open>
  What the code takes from the interpreter and is not part of the repository:
  \<open>json.loads\<close>, \<open>repr\<close> of lists and dictionaries, and \<open>str(e)\<close> of an exception.
\<close>

record pylib =
  json_loads :: "string \<Rightarrow> pyval option"
  py_repr :: "pyval \<Rightarrow> string"
  exn_str :: "py_exception \<Rightarrow> string"

text \<open>\<open>str(v)\<close>, as an f-string interpolates a value.\<close>

definition py_str :: "pylib \<Rightarrow> pyval \<Rightarrow> string" where
  "py_str lib v =
     (case v of
        PNone \<Rightarrow> ''None''
      | PBool b \<Rightarrow> (if b then ''True'' else ''False'')
      | PInt i \<Rightarrow> str_int i
      | PStr s \<Rightarrow> s
      | _ \<Rightarrow> py_repr lib v)"

text \<open>\<open>obj[key]\<close> for a string key, and \<open>obj[0]\<close>.\<close>

definition getitem_str :: "pyval \<Rightarrow> string \<Rightarrow> py_exception + pyval" where
  "getitem_str obj key =
     (case obj of
        PDict d \<Rightarrow> (case map_of d key of
                      Some v \<Rightarrow> Inr v
                    | None \<Rightarrow> Inl (KeyError (PStr key)))
      | _ \<Rightarrow> Inl (TypeError obj))"

definition getitem_0 :: "pyval \<Rightarrow> py_exception + pyval" where
  "getitem_0 obj =
     (case obj of
        PDict d \<Rightarrow> Inl (KeyError (PInt 0))
      | PList [] \<Rightarrow> Inl (IndexError obj)
      | PList (x # xs) \<Rightarrow> Inr x
      | PStr [] \<Rightarrow> Inl (IndexError obj)
      | PStr (c # cs) \<Rightarrow> Inr (PStr [c])
      | _ \<Rightarrow> Inl (TypeError obj))"

section \<open>The network\<close>

text \<open>
  One HTTP call of the \<open>requests\<close> library. The remote side is a function from the
  calls made so far and the present call to what \<open>requests\<close> gives back; the calls made
  are threaded through every operation as a trace. The fixed headers and credentials
  are not part of a call's record.
\<close>

datatype request =
    GET string "pydict option"
  | POST string pyval
  | DELETE string

record response =
  status_code :: nat
  resp_reason :: string
  resp_url :: string
  resp_json :: "string + pyval"

datatype http_result =
    Response response
  | Request_exception string
  | Other_exception string

type_synonym server = "request list \<Rightarrow> request \<Rightarrow> http_result"

definition http :: "server \<Rightarrow> request list \<Rightarrow> request \<Rightarrow> http_result \<times> request list" where
  "http srv trace req = (srv trace req, trace @ [req])"

text \<open>
  \<open>response.raise_for_status()\<close>: an \<open>HTTPError\<close> (a \<open>RequestException\<close>) for the codes
  400 to 599, with the text \<open>requests\<close> builds for it.
\<close>

definition raise_for_status :: "response \<Rightarrow> string option" where
  "raise_for_status r =
     (if 400 \<le> status_code r \<and> status_code r < 500
      then Some (str_nat (status_code r) @ '' Client Error: '' @ resp_reason r
                 @ '' for url: '' @ resp_url r)
      else if 500 \<le> status_code r \<and> status_code r < 600
      then Some (str_nat (status_code r) @ '' Server Error: '' @ resp_reason r
                 @ '' for url: '' @ resp_url r)
      else None)"

text \<open>
  The common tail of a call: \<open>raise_for_status()\<close>, then \<open>response.json()\<close>, whose
  failure is a \<open>RequestException\<close> as well (\<open>requests.exceptions.JSONDecodeError\<close>).
  The result is the parsed body, the text of a \<open>RequestException\<close>, or another exception.
\<close>

datatype 'a fetched =
    Body 'a
  | Request_failed string
  | Raised py_exception

definition checked_json :: "http_result \<Rightarrow> pyval fetched" where
  "checked_json r =
     (case r of
        Request_exception e \<Rightarrow> Request_failed e
      | Other_exception e \<Rightarrow> Raised (Library_error e)
      | Response resp \<Rightarrow>
          (case raise_for_status resp of
             Some e \<Rightarrow> Request_failed e
           | None \<Rightarrow> (case resp_json resp of
                        Inl e \<Rightarrow> Request_failed e
                      | Inr v \<Rightarrow> Body v)))"

section \<open>REST client (netbox\_agent.NetBoxController)\<close>

record config =
  netbox_url :: string
  netbox_token :: string
  opencve_user :: "string option"
  opencve_password :: "string option"

text \<open>\<open>self.netbox = netbox_url.rstrip('/')\<close>\<close>

definition netbox :: "config \<Rightarrow> string" where
  "netbox cfg = py_rstrip (CHR ''/'') (netbox_url cfg)"

text \<open>\<open>full_url = f"{self.netbox}/{api_url.lstrip('/')}"\<close>\<close>

definition get_url :: "config \<Rightarrow> string \<Rightarrow> string" where
  "get_url cfg u = netbox cfg @ ''/'' @ py_lstrip (CHR ''/'') u"

definition get_api ::
  "config \<Rightarrow> server \<Rightarrow> request list \<Rightarrow> pyval \<Rightarrow> pydict option
     \<Rightarrow> (py_exception + pyval) \<times> request list" where
  "get_api cfg srv trace api_url params =
     (case api_url of
        PStr u \<Rightarrow>
          (let full_url = get_url cfg u;
               (r, trace') = http srv trace (GET full_url params)
           in case checked_json r of
                Body v \<Rightarrow> (Inr v, trace')
              | Request_failed e \<Rightarrow> (Inr (PDict (error_dict (''Request failed: '' @ e))), trace')
              | Raised x \<Rightarrow> (Inl x, trace'))
      | _ \<Rightarrow> (Inl (AttributeError api_url ''lstrip''), trace))"

definition post_api ::
  "config \<Rightarrow> server \<Rightarrow> request list \<Rightarrow> string \<Rightarrow> pyval
     \<Rightarrow> (py_exception + pyval) \<times> request list" where
  "post_api cfg srv trace api_url payload =
     (let full_url = netbox cfg @ api_url;
          (r, trace') = http srv trace (POST full_url payload)
      in case checked_json r of
           Body v \<Rightarrow> (Inr v, trace')
         | Request_failed e \<Rightarrow> (Inr (PDict (error_dict (''Request failed: '' @ e))), trace')
         | Raised x \<Rightarrow> (Inl x, trace'))"

definition deletion_successful :: pydict where
  "deletion_successful = [(''status'', PStr ''success''), (''message'', PStr ''Deletion successful.'')]"

definition delete_api ::
  "config \<Rightarrow> server \<Rightarrow> request list \<Rightarrow> string
     \<Rightarrow> (py_exception + pydict) \<times> request list" where
  "delete_api cfg srv trace api_url =
     (let full_url = netbox cfg @ api_url;
          (r, trace') = http srv trace (DELETE full_url)
      in case r of
           Response resp \<Rightarrow>
             (if status_code resp = 204
              then (Inr deletion_successful, trace')
              else (Inr (error_dict (''Failed to delete. Status code: ''
                                     @ str_nat (status_code resp))), trace'))
         | Request_exception e \<Rightarrow> (Inr (error_dict (''Request failed: '' @ e)), trace')
         | Other_exception e \<Rightarrow> (Inl (Library_error e), trace'))"

section \<open>Fetch with retries (netbox\_agent.get\_data\_directly)\<close>

text \<open>\<open>re.match(r"^/api/[a-z]+/[a-z\-]+", api_url)\<close>: a match from the start of the string.\<close>

definition api_url_match :: "string \<Rightarrow> bool" where
  "api_url_match s =
     (take 5 s = ''/api/'' \<and>
      (let rest = drop 5 s
       in takeWhile is_lower rest \<noteq> [] \<and>
          (case dropWhile is_lower rest of
             c1 # c2 # _ \<Rightarrow> c1 = CHR ''/'' \<and> (is_lower c2 \<or> c2 = CHR ''-'')
           | _ \<Rightarrow> False)))"

text \<open>\<open>isinstance(response, dict) and response.get("error")\<close>, and \<open>response['error']\<close>.\<close>

definition is_error_response :: "pyval \<Rightarrow> bool" where
  "is_error_response response =
     (case response of
        PDict d \<Rightarrow> truthy (dict_get d ''error'' PNone)
      | _ \<Rightarrow> False)"

definition response_error :: "pyval \<Rightarrow> pyval" where
  "response_error response =
     (case response of
        PDict d \<Rightarrow> dict_get d ''error'' PNone
      | _ \<Rightarrow> PNone)"

definition fetch_success :: "pyval \<Rightarrow> pydict" where
  "fetch_success response =
     [(''status'', PStr ''success''),
      (''message'', PStr ''Data fetched successfully.''),
      (''data'', response)]"

text \<open>
  The loop \<open>for attempt in range(1, retries + 1)\<close> with its \<open>try\<close>; the loop variable
  is an argument. The \<open>time.sleep(2)\<close> between attempts is left out.
\<close>

function fetch_loop ::
  "config \<Rightarrow> pylib \<Rightarrow> server \<Rightarrow> request list \<Rightarrow> pyval \<Rightarrow> nat \<Rightarrow> nat
     \<Rightarrow> pydict \<times> request list" where
  "fetch_loop cfg lib srv trace api_url retries attempt =
     (if attempt > retries
      then (error_dict ''Unexpected failure in API request.'', trace)
      else
        (case get_api cfg srv trace api_url None of
           (Inr response, trace') \<Rightarrow>
             (if is_error_response response then
                (if attempt = retries
                 then (error_dict (''API request failed after '' @ str_nat retries
                                   @ '' attempts: '' @ py_str lib (response_error response)),
                       trace')
                 else fetch_loop cfg lib srv trace' api_url retries (attempt + 1))
              else (fetch_success response, trace'))
         | (Inl e, trace') \<Rightarrow>
             (if attempt = retries
              then (error_dict (''GET request failed after '' @ str_nat retries
                                @ '' attempts: '' @ exn_str lib e),
                    trace')
              else fetch_loop cfg lib srv trace' api_url retries (attempt + 1))))"
  by pat_completeness auto
termination
  by (relation "measure (\<lambda>(cfg, lib, srv, trace, api_url, retries, attempt).
                           Suc retries - attempt)") auto

definition get_data_directly ::
  "config \<Rightarrow> pylib \<Rightarrow> server \<Rightarrow> request list \<Rightarrow> pyval
     \<Rightarrow> (py_exception + pydict) \<times> request list" where
  "get_data_directly cfg lib srv trace api_url =
     (let input_data = validate_tool_input (json_loads lib)
                         (PDict [(''api_url'', api_url)]) (Some [''api_url'']) 5
      in if has_key input_data ''error'' then (Inr input_data, trace)
         else
           (case getitem_str (PDict input_data) ''api_url'' of
              Inl e \<Rightarrow> (Inl e, trace)
            | Inr (PStr u) \<Rightarrow>
                (if u = [] then (Inr (error_dict ''Invalid or missing `api_url`.''), trace)
                 else if \<not> api_url_match u
                 then (Inr (error_dict (''Invalid API URL format: '' @ u)), trace)
                 else (let (result, trace') = fetch_loop cfg lib srv trace (PStr u) 5 1
                       in (Inr result, trace')))
            | Inr _ \<Rightarrow> (Inr (error_dict ''Invalid or missing `api_url`.''), trace)))"

section \<open>Lookup, then delete (netbox\_agent.delete\_data\_handler)\<close>

definition no_resource_found :: "pylib \<Rightarrow> pyval \<Rightarrow> pyval \<Rightarrow> pydict" where
  "no_resource_found lib api_url name =
     error_dict (''No resource found at '' @ sq @ py_str lib api_url @ sq
                 @ '' with name '' @ sq @ py_str lib name @ sq @ ''.'')"

definition deleted_successfully :: "pylib \<Rightarrow> pyval \<Rightarrow> pyval \<Rightarrow> pydict" where
  "deleted_successfully lib api_url name =
     [(''status'', PStr ''success''),
      (''message'', PStr (''Successfully deleted '' @ sq @ py_str lib name @ sq
                          @ '' at '' @ py_str lib api_url @ ''.''))]"

text \<open>\<open>lookup_response['results'][0]['id']\<close>\<close>

definition first_result_id :: "pyval \<Rightarrow> py_exception + pyval" where
  "first_result_id lookup_response =
     (case getitem_str lookup_response ''results'' of
        Inl e \<Rightarrow> Inl e
      | Inr results \<Rightarrow>
          (case getitem_0 results of
             Inl e \<Rightarrow> Inl e
           | Inr r \<Rightarrow> getitem_str r ''id''))"

text \<open>The body of the \<open>try\<close>: an exception raised in it is the left summand.\<close>

definition delete_try ::
  "config \<Rightarrow> pylib \<Rightarrow> server \<Rightarrow> request list \<Rightarrow> pyval \<Rightarrow> pyval
     \<Rightarrow> (py_exception + pydict) \<times> request list" where
  "delete_try cfg lib srv trace api_url name =
     (case get_api cfg srv trace api_url (Some [(''name'', name)]) of
        (Inl e, trace1) \<Rightarrow> (Inl e, trace1)
      | (Inr lookup_response, trace1) \<Rightarrow>
          (case lookup_response of
             PDict lr \<Rightarrow>
               (if eq_zero (dict_get lr ''count'' (PInt 0))
                then (Inr (no_resource_found lib api_url name), trace1)
                else
                  (case first_result_id lookup_response of
                     Inl e \<Rightarrow> (Inl e, trace1)
                   | Inr entity_id \<Rightarrow>
                       (case api_url of
                          PStr u \<Rightarrow>
                            (let delete_url = py_rstrip (CHR ''/'') u @ ''/''
                                                @ py_str lib entity_id @ ''/''
                             in case delete_api cfg srv trace1 delete_url of
                                  (Inl e, trace2) \<Rightarrow> (Inl e, trace2)
                                | (Inr delete_response, trace2) \<Rightarrow>
                                    (if dict_get delete_response ''status'' PNone = PStr ''success''
                                     then (Inr (deleted_successfully lib api_url name), trace2)
                                     else (Inr [(''error'',
                                                 dict_get delete_response ''error''
                                                   (PStr ''Unknown error during deletion.''))],
                                           trace2)))
                        | _ \<Rightarrow> (Inl (AttributeError api_url ''rstrip''), trace1))))
           | _ \<Rightarrow> (Inl (AttributeError lookup_response ''get''), trace1)))"

text \<open>
  The handler. \<open>payload.get("name")\<close> stands before the \<open>try\<close>: on a payload that is
  no dictionary its \<open>AttributeError\<close> leaves the handler.
\<close>

definition delete_data_handler ::
  "config \<Rightarrow> pylib \<Rightarrow> server \<Rightarrow> request list \<Rightarrow> pyval
     \<Rightarrow> (py_exception + pydict) \<times> request list" where
  "delete_data_handler cfg lib srv trace input_data0 =
     (let input_data = validate_tool_input (json_loads lib) input_data0
                         (Some [''api_url'', ''payload'']) 5
      in if has_key input_data ''error'' then (Inr input_data, trace)
         else
           (let api_url = dict_get input_data ''api_url'' PNone;
                payload = dict_get input_data ''payload'' (PDict [])
            in case payload of
                 PDict p \<Rightarrow>
                   (let name = dict_get p ''name'' PNone
                    in if \<not> truthy api_url \<or> \<not> truthy name
                       then (Inr (error_dict
                                    ''Both 'api_url' and 'payload' with 'name' are required.''),
                             trace)
                       else
                         (case delete_try cfg lib srv trace api_url name of
                            (Inl e, trace') \<Rightarrow>
                              (Inr (error_dict (''Error deleting data: '' @ exn_str lib e)), trace')
                          | (Inr result, trace') \<Rightarrow> (Inr result, trace')))
               | _ \<Rightarrow> (Inl (AttributeError payload ''get''), trace)))"

section \<open>Vulnerability query (opencve\_agent.fetch\_cves\_from\_opencve)\<close>

definition vendor_mapping :: "(string \<times> string) list" where
  "vendor_mapping =
     [(''juniper networks'', ''juniper''),
      (''juniper'', ''juniper''),
      (''cisco systems'', ''cisco''),
      (''cisco'', ''cisco''),
      (''arista networks'', ''arista''),
      (''arista'', ''arista'')]"

text \<open>\<open>vendor_mapping.get(vendor, vendor)\<close>\<close>

definition vendor_alias :: "string \<Rightarrow> string" where
  "vendor_alias vendor =
     (case map_of vendor_mapping vendor of Some v \<Rightarrow> v | None \<Rightarrow> vendor)"

text \<open>\<open>input_data.get(key, "")\<close>, on which \<open>.strip()\<close> is called next.\<close>

definition str_field :: "pydict \<Rightarrow> string \<Rightarrow> py_exception + string" where
  "str_field d key =
     (case dict_get d key (PStr []) of
        PStr s \<Rightarrow> Inr s
      | x \<Rightarrow> Inl (AttributeError x ''strip''))"

definition cve_url :: "string \<Rightarrow> string \<Rightarrow> string" where
  "cve_url vendor version =
     ''https://app.opencve.io/api/cve?vendor='' @ vendor @ ''&version='' @ version"

text \<open>\<open>".".join(version.split(".")[:2])\<close>\<close>

definition fallback_version :: "string \<Rightarrow> string" where
  "fallback_version version = py_join ''.'' (take 2 (py_split (CHR ''.'') version))"

text \<open>
  One element of the list comprehension:
  \<^verbatim>\<open>{"cve_id": cve["cve_id"], "description": cve["description"][:200] + "..."}\<close>
\<close>

definition format_cve :: "pyval \<Rightarrow> py_exception + pyval" where
  "format_cve cve =
     (case getitem_str cve ''cve_id'' of
        Inl e \<Rightarrow> Inl e
      | Inr cve_id \<Rightarrow>
          (case getitem_str cve ''description'' of
             Inl e \<Rightarrow> Inl e
           | Inr (PStr description) \<Rightarrow>
               Inr (PDict [(''cve_id'', cve_id),
                           (''description'', PStr (take 200 description @ ''...''))])
           | Inr x \<Rightarrow> Inl (TypeError x)))"

fun format_all :: "pyval list \<Rightarrow> py_exception + pyval list" where
  "format_all [] = Inr []"
| "format_all (cve # cves) =
     (case format_cve cve of
        Inl e \<Rightarrow> Inl e
      | Inr c \<Rightarrow> (case format_all cves of
                    Inl e \<Rightarrow> Inl e
                  | Inr cs \<Rightarrow> Inr (c # cs)))"

text \<open>
  \<open>cve_list[:10]\<close>, as the sequence the comprehension runs over. Slicing anything
  but a list or a string raises (a \<open>KeyError\<close> instead, for a dictionary, from
  Python 3.12 on).
\<close>

definition first_10 :: "pyval \<Rightarrow> py_exception + pyval list" where
  "first_10 cve_list =
     (case cve_list of
        PList xs \<Rightarrow> Inr (take 10 xs)
      | PStr s \<Rightarrow> Inr (map (\<lambda>c. PStr [c]) (take 10 s))
      | x \<Rightarrow> Inl (TypeError x))"

text \<open>The lines from \<open>cve_list = json_response.get("results", [])\<close> to the \<open>return\<close>.\<close>

definition extract_cves :: "string \<Rightarrow> string \<Rightarrow> pyval \<Rightarrow> py_exception + pydict" where
  "extract_cves vendor version json_response =
     (case json_response of
        PDict jr \<Rightarrow>
          (let cve_list = dict_get jr ''results'' (PList [])
           in if \<not> truthy cve_list
              then Inr [(''message'',
                         PStr (''No CVEs found for '' @ vendor @ '' '' @ version @ ''.''))]
              else
                (case first_10 cve_list of
                   Inl e \<Rightarrow> Inl e
                 | Inr cves \<Rightarrow>
                     (case format_all cves of
                        Inl e \<Rightarrow> Inl e
                      | Inr formatted_cves \<Rightarrow>
                          (case getitem_str json_response ''count'' of
                             Inl e \<Rightarrow> Inl e
                           | Inr n \<Rightarrow> Inr [(''cve_count'', n),
                                            (''cves'', PList formatted_cves)]))))
      | x \<Rightarrow> Inl (AttributeError x ''get''))"

definition get_json :: "server \<Rightarrow> request list \<Rightarrow> string \<Rightarrow> pyval fetched \<times> request list" where
  "get_json srv trace url =
     (let (r, trace') = http srv trace (GET url None) in (checked_json r, trace'))"

definition lift_exn :: "py_exception + 'a \<Rightarrow> 'a fetched" where
  "lift_exn r = (case r of Inl e \<Rightarrow> Raised e | Inr v \<Rightarrow> Body v)"

text \<open>The body of the \<open>try\<close>: the exact query, the fallback, the extraction.\<close>

definition query_cves ::
  "server \<Rightarrow> request list \<Rightarrow> string \<Rightarrow> string \<Rightarrow> pydict fetched \<times> request list" where
  "query_cves srv trace vendor version =
     (case get_json srv trace (cve_url vendor version) of
        (Request_failed e, trace1) \<Rightarrow> (Request_failed e, trace1)
      | (Raised x, trace1) \<Rightarrow> (Raised x, trace1)
      | (Body json_response, trace1) \<Rightarrow>
          (case json_response of
             PDict jr \<Rightarrow>
               (if eq_zero (dict_get jr ''count'' (PInt 0)) then
                  (if fallback_version version \<noteq> version then
                     (case get_json srv trace1 (cve_url vendor (fallback_version version)) of
                        (Request_failed e, trace2) \<Rightarrow> (Request_failed e, trace2)
                      | (Raised x, trace2) \<Rightarrow> (Raised x, trace2)
                      | (Body json_response2, trace2) \<Rightarrow>
                          (lift_exn (extract_cves vendor version json_response2), trace2))
                   else (lift_exn (extract_cves vendor version json_response), trace1))
                else (lift_exn (extract_cves vendor version json_response), trace1))
           | x \<Rightarrow> (Raised (AttributeError x ''get''), trace1)))"

text \<open>
  The first step: a string is parsed with \<open>json.loads(input_data.replace("'", '"'))\<close>,
  anything else is kept.
\<close>

definition parse_cve_input :: "pylib \<Rightarrow> pyval \<Rightarrow> pyval option" where
  "parse_cve_input lib input_data0 =
     (case input_data0 of
        PStr s \<Rightarrow> json_loads lib (py_replace (CHR 0x27) (CHR 0x22) s)
      | _ \<Rightarrow> Some input_data0)"

definition fetch_cves_from_opencve ::
  "config \<Rightarrow> pylib \<Rightarrow> server \<Rightarrow> request list \<Rightarrow> pyval
     \<Rightarrow> (py_exception + pydict) \<times> request list" where
  "fetch_cves_from_opencve cfg lib srv trace input_data0 =
     (case parse_cve_input lib input_data0 of
        None \<Rightarrow>
          (Inr (error_dict ''Invalid input format. Expected a valid JSON dictionary.''), trace)
      | Some (PDict input_data) \<Rightarrow>
          (case str_field input_data ''vendor'' of
             Inl e \<Rightarrow> (Inl e, trace)
           | Inr v \<Rightarrow>
               (case str_field input_data ''version'' of
                  Inl e \<Rightarrow> (Inl e, trace)
                | Inr w \<Rightarrow>
                    (let vendor = vendor_alias (py_lower (py_strip v));
                         version = py_strip w
                     in if vendor = [] \<or> version = []
                        then (Inr (error_dict ''Missing 'vendor' or 'version' field.''), trace)
                        else if opencve_user cfg \<in> {None, Some []}
                                \<or> opencve_password cfg \<in> {None, Some []}
                        then (Inr (error_dict ''OpenCVE API credentials not found.''), trace)
                        else
                          (case query_cves srv trace vendor version of
                             (Body result, trace') \<Rightarrow> (Inr result, trace')
                           | (Request_failed e, trace') \<Rightarrow>
                               (Inr (error_dict ''Failed to fetch CVEs from OpenCVE.''), trace')
                           | (Raised x, trace') \<Rightarrow> (Inl x, trace')))))
      | Some _ \<Rightarrow> (Inr (error_dict ''Invalid input format. Expected a dictionary.''), trace))"

section \<open>Conditions used in the statements\<close>

text \<open>
  A delete request that reaches the lookup for the path \<open>u\<close> and the name \<open>name\<close>: the
  validator returns no error, \<open>api_url\<close> is the non-empty string \<open>u\<close>, and the payload is
  a dictionary whose \<open>name\<close> is the true value \<open>name\<close>.
\<close>

definition delete_request :: "pylib \<Rightarrow> pyval \<Rightarrow> string \<Rightarrow> pyval \<Rightarrow> bool" where
  "delete_request lib input_data0 u name =
     (let input_data = validate_tool_input (json_loads lib) input_data0
                         (Some [''api_url'', ''payload'']) 5
      in \<not> has_key input_data ''error''
         \<and> dict_get input_data ''api_url'' PNone = PStr u \<and> u \<noteq> []
         \<and> (case dict_get input_data ''payload'' (PDict []) of
               PDict p \<Rightarrow> dict_get p ''name'' PNone = name
             | _ \<Rightarrow> False)
         \<and> truthy name)"

definition is_delete :: "request \<Rightarrow> bool" where
  "is_delete r = (case r of DELETE _ \<Rightarrow> True | _ \<Rightarrow> False)"

text \<open>
  A vulnerability query that reaches the network with the vendor field \<open>v\<close> and the
  version field \<open>w\<close>: the input is (or parses to) a dictionary with these two strings,
  neither blank, and both credentials are set.
\<close>

definition cve_request :: "config \<Rightarrow> pylib \<Rightarrow> pyval \<Rightarrow> string \<Rightarrow> string \<Rightarrow> bool" where
  "cve_request cfg lib input_data0 v w =
     (case parse_cve_input lib input_data0 of
        Some (PDict d) \<Rightarrow>
          dict_get d ''vendor'' (PStr []) = PStr v \<and> dict_get d ''version'' (PStr []) = PStr w
          \<and> py_strip v \<noteq> [] \<and> py_strip w \<noteq> []
          \<and> opencve_user cfg \<notin> {None, Some []} \<and> opencve_password cfg \<notin> {None, Some []}
      | _ \<Rightarrow> False)"

text \<open>A record of the \<open>results\<close> list with a \<open>cve_id\<close> and a string \<open>description\<close>.\<close>

definition is_cve_record :: "pyval \<Rightarrow> bool" where
  "is_cve_record r =
     (case r of
        PDict d \<Rightarrow> (case (map_of d ''cve_id'', map_of d ''description'') of
                      (Some _, Some (PStr _)) \<Rightarrow> True
                    | _ \<Rightarrow> False)
      | _ \<Rightarrow> False)"

definition cve_id_of :: "pyval \<Rightarrow> pyval" where
  "cve_id_of r = (case getitem_str r ''cve_id'' of Inr v \<Rightarrow> v | Inl _ \<Rightarrow> PNone)"

definition description_of :: "pyval \<Rightarrow> string" where
  "description_of r = (case getitem_str r ''description'' of Inr (PStr s) \<Rightarrow> s | _ \<Rightarrow> [])"

section \<open>Concrete environments\<close>

text \<open>
  Fixed configurations, library functions and remote sides, on which the operations
  are evaluated.
\<close>

definition example_cfg :: config where
  "example_cfg = \<lparr>netbox_url = ''http://netbox.local/'', netbox_token = ''t0ken'',
                  opencve_user = Some ''user'', opencve_password = Some ''secret''\<rparr>"

definition no_json :: "string \<Rightarrow> pyval option" where
  "no_json s = None"

definition opaque_repr :: "pyval \<Rightarrow> string" where
  "opaque_repr v = ''<object>''"

definition opaque_exn_str :: "py_exception \<Rightarrow> string" where
  "opaque_exn_str e = (case e of Library_error msg \<Rightarrow> msg | _ \<Rightarrow> ''<exception>'')"

definition example_lib :: pylib where
  "example_lib = \<lparr>json_loads = no_json, py_repr = opaque_repr, exn_str = opaque_exn_str\<rparr>"

text \<open>A remote side that gives the same answer to every call.\<close>

definition always :: "http_result \<Rightarrow> server" where
  "always r trace req = r"

text \<open>A response with the given status code and JSON body.\<close>

definition json_response :: "nat \<Rightarrow> pyval \<Rightarrow> http_result" where
  "json_response code v =
     Response \<lparr>status_code = code, resp_reason = ''-'', resp_url = ''-'', resp_json = Inr v\<rparr>"

text \<open>The delete request of the agent's own prompt.\<close>

definition bell_canada :: pyval where
  "bell_canada = PDict [(''api_url'', PStr ''/api/circuits/providers/''),
                        (''payload'', PDict [(''name'', PStr ''Bell Canada''),
                                             (''slug'', PStr ''bell'')])]"

text \<open>Vulnerability queries, and responses of the vulnerability database.\<close>

definition junos_query :: "string \<Rightarrow> pyval" where
  "junos_query version = PDict [(''vendor'', PStr ''Juniper Networks''), (''version'', PStr version)]"

definition no_results :: http_result where
  "no_results = json_response 200 (PDict [(''count'', PInt 0), (''results'', PList [])])"

definition vendor_query :: "string \<Rightarrow> pyval" where
  "vendor_query vendor = PDict [(''vendor'', PStr vendor), (''version'', PStr ''1.0'')]"

definition long_cve :: pyval where
  "long_cve = PDict [(''count'', PInt 1),
                     (''results'', PList [PDict [(''cve_id'', PStr ''CVE-2024-0001''),
                                                 (''description'', PStr (replicate 201 (CHR ''a'')))]])]"

definition numbered_cve :: "nat \<Rightarrow> pyval" where
  "numbered_cve i = PDict [(''cve_id'', PStr (''CVE-2024-'' @ str_nat i)),
                           (''description'', PStr (replicate 250 (CHR ''a'')))]"

definition twelve_cves :: pydict where
  "twelve_cves = [(''count'', PInt 12), (''results'', PList (map numbered_cve [0..<12]))]"

text \<open>Vendors with characters beyond ASCII: U+00A0, U+0085 and U+00C9.\<close>

definition padded_juniper :: string where
  "padded_juniper = CHR 0xA0 # ''  JUNIPER networks '' @ [CHR 0x85]"

definition ecole :: string where
  "ecole = CHR 0xC9 # ''COLE''"

section \<open>Properties of the input validator\<close>

declare validate_loop.simps [simp del]
declare fetch_loop.simps [simp del]

lemma validate_loop_small:
  "retries < max_retries \<Longrightarrow> length d \<le> length ks \<Longrightarrow>
   validate_loop jl (PDict d) (Some ks) max_retries retries = d"
  by (subst validate_loop.simps) (simp add: parse_input_def)

lemma strip_fold_keys:
  "set (map fst (fold (\<lambda>key acc. case map_of d key of
                        Some v \<Rightarrow> AList.update key v acc
                      | None \<Rightarrow> acc) ks acc)) \<subseteq> set (map fst acc) \<union> set ks"
proof (induction ks arbitrary: acc)
  case Nil
  then show ?case by simp
next
  case (Cons k ks)
  show ?case
  proof (cases "map_of d k")
    case None
    with Cons.IH [of acc] show ?thesis by auto
  next
    case (Some v)
    with Cons.IH [of "AList.update k v acc"] show ?thesis
      by (auto simp: dom_update)
  qed
qed

lemma strip_keys_subset: "set (dict_keys (strip_keys ks d)) \<subseteq> set ks"
  using strip_fold_keys [of d ks "[]"] by (simp add: strip_keys_def dict_keys_def)

lemma strip_fold_distinct:
  "distinct (map fst acc) \<Longrightarrow>
   distinct (map fst (fold (\<lambda>key acc. case map_of d key of
                        Some v \<Rightarrow> AList.update key v acc
                      | None \<Rightarrow> acc) ks acc))"
proof (induction ks arbitrary: acc)
  case Nil
  then show ?case by simp
next
  case (Cons k ks)
  then show ?case
    by (cases "map_of d k") (simp_all add: distinct_update)
qed

lemma strip_keys_distinct: "distinct (dict_keys (strip_keys ks d))"
  using strip_fold_distinct [of "[]" d ks] by (simp add: strip_keys_def dict_keys_def)

lemma strip_keys_length: "length (strip_keys ks d) \<le> length ks"
proof -
  have "length (strip_keys ks d) = card (set (dict_keys (strip_keys ks d)))"
    using distinct_card [OF strip_keys_distinct [of ks d]] by (simp add: dict_keys_def)
  also have "\<dots> \<le> card (set ks)"
    by (rule card_mono) (simp_all add: strip_keys_subset)
  also have "\<dots> \<le> length ks"
    by (rule card_length)
  finally show ?thesis .
qed

lemma validate_loop_oversized:
  assumes "ks \<noteq> []" "length d > length ks" "retries + 1 < max_retries"
  shows "validate_loop jl (PDict d) (Some ks) max_retries retries = strip_keys ks d"
proof -
  have "validate_loop jl (PDict d) (Some ks) max_retries retries
        = validate_loop jl (PDict (strip_keys ks d)) (Some ks) max_retries (retries + 1)"
    using assms by (subst validate_loop.simps) (simp add: parse_input_def)
  also have "\<dots> = strip_keys ks d"
    using assms by (intro validate_loop_small) (simp_all add: strip_keys_length)
  finally show ?thesis .
qed

text \<open>
  An oversized dictionary is stripped to expected keys in one repair pass and returned
  by the next one, whenever the budget allows two passes.
\<close>

lemma validate_tool_input_oversized:
  assumes "ks \<noteq> []" "length d > length ks" "2 \<le> max_retries"
  shows "validate_tool_input jl (PDict d) (Some ks) max_retries = strip_keys ks d"
    and "set (dict_keys (validate_tool_input jl (PDict d) (Some ks) max_retries)) \<subseteq> set ks"
proof -
  show "validate_tool_input jl (PDict d) (Some ks) max_retries = strip_keys ks d"
    using assms by (simp add: validate_tool_input_def validate_loop_oversized)
  then show "set (dict_keys (validate_tool_input jl (PDict d) (Some ks) max_retries)) \<subseteq> set ks"
    by (simp add: strip_keys_subset)
qed

text \<open>
  C1. The validator is claimed to return, whenever it returns no error, a payload whose
  keys all belong to \<open>expected_keys\<close>. The loop only compares the number of keys with
  the number of expected keys: the payload \<open>{"extra": "x"}\<close>, validated against the
  expected keys \<open>["api_url"]\<close> with the default budget of 5, comes back unchanged. It
  carries no \<open>error\<close> key, and its key \<open>extra\<close> is not an expected one.
\<close>

theorem validate_tool_input_unexpected_key_kept:
  "validate_tool_input jl (PDict [(''extra'', PStr ''x'')]) (Some [''api_url'']) 5
     = [(''extra'', PStr ''x'')]
   \<and> \<not> has_key (validate_tool_input jl (PDict [(''extra'', PStr ''x'')]) (Some [''api_url'']) 5)
          ''error''
   \<and> \<not> set (dict_keys (validate_tool_input jl (PDict [(''extra'', PStr ''x'')])
                          (Some [''api_url'']) 5)) \<subseteq> set [''api_url'']"
  by (simp add: validate_tool_input_def validate_loop_small has_key_def dict_keys_def)

text \<open>
  C10. A dictionary with at most as many keys as there are expected keys is returned
  unchanged by the first pass of the loop (there is a first pass when \<open>max_retries\<close> is
  positive), whether or not its keys are expected ones.
\<close>

theorem validate_tool_input_small_identity:
  "0 < max_retries \<Longrightarrow> length d \<le> length ks \<Longrightarrow>
   validate_tool_input jl (PDict d) (Some ks) max_retries = d"
  by (simp add: validate_tool_input_def validate_loop_small)

theorem validate_tool_input_small_identity_witness:
  "(0::int) < 5 \<and> length [(''extra'', PStr ''x'')] \<le> length [''api_url''] \<and>
   validate_tool_input (\<lambda>s. None) (PDict [(''extra'', PStr ''x'')]) (Some [''api_url'']) 5
     = [(''extra'', PStr ''x'')]"
  using validate_tool_input_small_identity
          [of 5 "[(''extra'', PStr ''x'')]" "[''api_url'']" "\<lambda>s. None"]
  by simp

section \<open>Properties of the REST client\<close>

lemma get_api_str:
  "get_api cfg srv trace (PStr u) params =
     (case checked_json (srv trace (GET (get_url cfg u) params)) of
        Body v \<Rightarrow> Inr v
      | Request_failed e \<Rightarrow> Inr (PDict (error_dict (''Request failed: '' @ e)))
      | Raised x \<Rightarrow> Inl x,
      trace @ [GET (get_url cfg u) params])"
  by (simp add: get_api_def http_def split: fetched.splits)

text \<open>
  C6, as stated, fails. A delete answered with the status 200 is an error for
  \<open>delete_api\<close>, which accepts the status 204 only; and \<open>get_api\<close> returns the parsed
  body of a response with the status 300, since \<open>raise_for_status\<close> raises for the
  codes 400 to 599 only.
\<close>

theorem delete_api_status_200_counterexample:
  "delete_api example_cfg (always (json_response 200 (PDict []))) [] ''/api/dcim/sites/7/''
     = (Inr (error_dict ''Failed to delete. Status code: 200''),
        [DELETE ''http://netbox.local/api/dcim/sites/7/''])
   \<and> get_api example_cfg (always (json_response 300 (PDict [(''count'', PInt 1)]))) []
         (PStr ''/api/dcim/sites/'') None
     = (Inr (PDict [(''count'', PInt 1)]), [GET ''http://netbox.local/api/dcim/sites/'' None])"
  by (simp add: delete_api_def get_api_str get_url_def http_def always_def json_response_def example_cfg_def
      netbox_def py_rstrip_def py_lstrip_def checked_json_def raise_for_status_def
      error_dict_def digit_def)

text \<open>
  C6, amended. For a GET: a transport failure, or a status from 400 to 599, yields the
  error mapping \<open>{"error": "Request failed: <detail>"}\<close>; a 2xx status with a JSON body
  yields the parsed body itself. For a DELETE: a transport failure yields that error
  mapping, the status 204 yields the success mapping with the message
  \<open>Deletion successful.\<close>, and every other status, other 2xx codes included, yields the
  error mapping \<open>{"error": "Failed to delete. Status code: <code>"}\<close>.
\<close>

theorem rest_client_outcomes:
  "(srv trace (GET (get_url cfg u) params) = Request_exception e \<longrightarrow>
      fst (get_api cfg srv trace (PStr u) params)
        = Inr (PDict (error_dict (''Request failed: '' @ e))))
   \<and> (srv trace (GET (get_url cfg u) params) = Response resp
        \<and> 400 \<le> status_code resp \<and> status_code resp < 600 \<longrightarrow>
      (\<exists>detail. fst (get_api cfg srv trace (PStr u) params)
        = Inr (PDict (error_dict (''Request failed: '' @ detail)))))
   \<and> (srv trace (GET (get_url cfg u) params) = Response resp
        \<and> 200 \<le> status_code resp \<and> status_code resp < 300 \<and> resp_json resp = Inr v \<longrightarrow>
      fst (get_api cfg srv trace (PStr u) params) = Inr v)
   \<and> (srv trace (DELETE (netbox cfg @ p)) = Request_exception e \<longrightarrow>
      fst (delete_api cfg srv trace p) = Inr (error_dict (''Request failed: '' @ e)))
   \<and> (srv trace (DELETE (netbox cfg @ p)) = Response resp \<and> status_code resp = 204 \<longrightarrow>
      fst (delete_api cfg srv trace p) = Inr deletion_successful)
   \<and> (srv trace (DELETE (netbox cfg @ p)) = Response resp \<and> status_code resp \<noteq> 204 \<longrightarrow>
      fst (delete_api cfg srv trace p)
        = Inr (error_dict (''Failed to delete. Status code: '' @ str_nat (status_code resp))))"
  by (auto simp: get_api_str delete_api_def http_def checked_json_def raise_for_status_def
           simp del: str_nat.simps)
theorem rest_client_outcomes_witness:
  "fst (get_api example_cfg (always (Request_exception ''timed out'')) []
          (PStr ''/api/dcim/sites/'') None)
     = Inr (PDict (error_dict ''Request failed: timed out''))
   \<and> fst (delete_api example_cfg (always (Request_exception ''timed out'')) []
            ''/api/dcim/sites/7/'')
     = Inr (error_dict ''Request failed: timed out'')
   \<and> (\<exists>detail. fst (get_api example_cfg (always (json_response 404 PNone)) []
                       (PStr ''/api/dcim/sites/'') None)
         = Inr (PDict (error_dict (''Request failed: '' @ detail))))
   \<and> fst (delete_api example_cfg (always (json_response 404 PNone)) [] ''/api/dcim/sites/7/'')
     = Inr (error_dict ''Failed to delete. Status code: 404'')
   \<and> fst (get_api example_cfg (always (json_response 200 (PDict [(''count'', PInt 1)]))) []
            (PStr ''/api/dcim/sites/'') None)
     = Inr (PDict [(''count'', PInt 1)])
   \<and> fst (delete_api example_cfg (always (json_response 204 PNone)) [] ''/api/dcim/sites/7/'')
     = Inr deletion_successful"
  using rest_client_outcomes [of "always (Request_exception ''timed out'')" "[]" example_cfg
          "''/api/dcim/sites/''" None "''timed out''" undefined undefined "''/api/dcim/sites/7/''"]
        rest_client_outcomes [of "always (json_response 404 PNone)" "[]" example_cfg
          "''/api/dcim/sites/''" None undefined
          "\<lparr>status_code = 404, resp_reason = ''-'', resp_url = ''-'', resp_json = Inr PNone\<rparr>"
          undefined "''/api/dcim/sites/7/''"]
        rest_client_outcomes [of "always (json_response 200 (PDict [(''count'', PInt 1)]))" "[]"
          example_cfg "''/api/dcim/sites/''" None undefined
          "\<lparr>status_code = 200, resp_reason = ''-'', resp_url = ''-'',
             resp_json = Inr (PDict [(''count'', PInt 1)])\<rparr>"
          "PDict [(''count'', PInt 1)]" "''/api/dcim/sites/7/''"]
        rest_client_outcomes [of "always (json_response 204 PNone)" "[]" example_cfg
          "''/api/dcim/sites/''" None undefined
          "\<lparr>status_code = 204, resp_reason = ''-'', resp_url = ''-'', resp_json = Inr PNone\<rparr>"
          undefined "''/api/dcim/sites/7/''"]
  by (simp add: always_def json_response_def digit_def)

section \<open>Properties of the fetch operation\<close>

lemma get_data_directly_str:
  "get_data_directly cfg lib srv trace (PStr u) =
     (if u = [] then (Inr (error_dict ''Invalid or missing `api_url`.''), trace)
      else if \<not> api_url_match u
      then (Inr (error_dict (''Invalid API URL format: '' @ u)), trace)
      else (Inr (fst (fetch_loop cfg lib srv trace (PStr u) 5 1)),
            snd (fetch_loop cfg lib srv trace (PStr u) 5 1)))"
  by (simp add: get_data_directly_def validate_tool_input_def validate_loop_small
        has_key_def getitem_str_def split_beta)

lemma api_url_match_circuits: "\<not> api_url_match ''/api/circuits/''"
  by (simp add: api_url_match_def is_lower_def lower_letters_def)

text \<open>
  C5, as stated, fails at the empty path: it does not match the shape, no call is made,
  but the error is \<open>Invalid or missing `api_url`.\<close>, not \<open>Invalid API URL format: \<close>.
\<close>

theorem get_data_directly_empty_path_counterexample:
  "\<not> api_url_match '''' \<and>
   get_data_directly example_cfg example_lib (always (json_response 200 (PDict []))) [] (PStr '''')
     = (Inr (error_dict ''Invalid or missing `api_url`.''), [])
   \<and> error_dict ''Invalid or missing `api_url`.'' \<noteq> error_dict (''Invalid API URL format: '' @ '''')"
  by (simp add: get_data_directly_str api_url_match_def error_dict_def)

text \<open>
  C5, amended. A path that does not match \<open>/api/<section>/<resource>\<close> is rejected
  before any network call (the trace is unchanged): with the error
  \<open>Invalid API URL format: <path>\<close> when the path is not empty, and with
  \<open>Invalid or missing `api_url`.\<close> when it is empty.
\<close>

theorem get_data_directly_rejects_unmatched:
  "\<not> api_url_match u \<Longrightarrow>
   get_data_directly cfg lib srv trace (PStr u)
     = (Inr (error_dict (if u = [] then ''Invalid or missing `api_url`.''
                         else ''Invalid API URL format: '' @ u)),
        trace)"
  by (simp add: get_data_directly_str)

theorem get_data_directly_rejects_unmatched_witness:
  "\<not> api_url_match ''/api/circuits/'' \<and>
   get_data_directly example_cfg example_lib (always (json_response 200 (PDict []))) []
       (PStr ''/api/circuits/'')
     = (Inr (error_dict ''Invalid API URL format: /api/circuits/''), [])"
  using get_data_directly_rejects_unmatched
          [OF api_url_match_circuits, of example_cfg example_lib
              "always (json_response 200 (PDict []))" "[]"]
        api_url_match_circuits
  by simp

text \<open>
  The retry loop with a budget of \<open>n\<close> attempts, entered at attempt \<open>a\<close>: when every
  remaining attempt fails (the call raises, or returns a dictionary with a true
  \<open>error\<close>), the loop makes all of them and reports the last failure.
\<close>

lemma fetch_loop_all_fail:
  assumes "a \<le> n" "1 \<le> a"
    and "\<forall>k < Suc n - a.
           (case fst (get_api cfg srv (t @ replicate k (GET (get_url cfg u) None)) (PStr u) None) of
              Inl e \<Rightarrow> True | Inr response \<Rightarrow> is_error_response response)"
  shows "fetch_loop cfg lib srv t (PStr u) n a =
           ((case fst (get_api cfg srv (t @ replicate (n - a) (GET (get_url cfg u) None))
                         (PStr u) None) of
               Inl e \<Rightarrow> error_dict (''GET request failed after '' @ str_nat n
                                     @ '' attempts: '' @ exn_str lib e)
             | Inr response \<Rightarrow> error_dict (''API request failed after '' @ str_nat n
                                     @ '' attempts: '' @ py_str lib (response_error response))),
            t @ replicate (Suc n - a) (GET (get_url cfg u) None))"
  using assms
proof (induction "n - a" arbitrary: a t)
  case 0
  then have an: "a = n" by simp
  from 0(4) have f: "case fst (get_api cfg srv t (PStr u) None) of
              Inl e \<Rightarrow> True | Inr response \<Rightarrow> is_error_response response"
    using an by (auto dest: spec [of _ 0])
  show ?case
    using f an
    by (subst fetch_loop.simps)
       (auto simp: get_api_str simp del: str_nat.simps split: fetched.splits sum.splits)
next
  case (Suc m)
  then have lt: "a < n" by simp
  let ?req = "GET (get_url cfg u) None"
  from Suc.prems(3) have f: "case fst (get_api cfg srv t (PStr u) None) of
              Inl e \<Rightarrow> True | Inr response \<Rightarrow> is_error_response response"
    using lt by (auto dest: spec [of _ 0])
  have rest: "\<forall>k < Suc n - Suc a.
           (case fst (get_api cfg srv ((t @ [?req]) @ replicate k ?req) (PStr u) None) of
              Inl e \<Rightarrow> True | Inr response \<Rightarrow> is_error_response response)"
  proof (intro allI impI)
    fix k assume "k < Suc n - Suc a"
    then have "Suc k < Suc n - a" using lt by simp
    with Suc.prems(3) show "case fst (get_api cfg srv ((t @ [?req]) @ replicate k ?req) (PStr u) None) of
              Inl e \<Rightarrow> True | Inr response \<Rightarrow> is_error_response response"
      by (auto dest!: spec [of _ "Suc k"] simp: replicate_app_Cons_same)
  qed
  have m: "m = n - Suc a" using Suc.hyps(2) by simp
  have ih: "fetch_loop cfg lib srv (t @ [?req]) (PStr u) n (Suc a) =
           ((case fst (get_api cfg srv ((t @ [?req]) @ replicate (n - Suc a) ?req)
                         (PStr u) None) of
               Inl e \<Rightarrow> error_dict (''GET request failed after '' @ str_nat n
                                     @ '' attempts: '' @ exn_str lib e)
             | Inr response \<Rightarrow> error_dict (''API request failed after '' @ str_nat n
                                     @ '' attempts: '' @ py_str lib (response_error response))),
            (t @ [?req]) @ replicate (Suc n - Suc a) ?req)"
    using Suc.hyps(1) [OF m _ _ rest] lt by simp
  have step: "fetch_loop cfg lib srv t (PStr u) n a
                = fetch_loop cfg lib srv (t @ [?req]) (PStr u) n (Suc a)"
    using f lt
    by (subst fetch_loop.simps)
       (auto simp: get_api_str simp del: str_nat.simps split: fetched.splits sum.splits)
  have idx: "Suc (n - Suc a) = n - a" "Suc (Suc n - Suc a) = Suc n - a" using lt by simp_all
  show ?case
    unfolding step ih
    using idx by (simp add: replicate_app_Cons_same [symmetric] del: replicate_Suc replicate.simps)
                 (simp flip: replicate_Suc add: idx)
qed

lemma api_url_match_nonempty: "api_url_match u \<Longrightarrow> u \<noteq> []"
  by (auto simp: api_url_match_def)

lemma api_url_match_sites: "api_url_match ''/api/dcim/sites/''"
  by (simp add: api_url_match_def is_lower_def lower_letters_def)

text \<open>
  C4. When the path is accepted and the wrapped call \<open>get_api\<close> fails on each of the
  5 attempts of the budget (a transport failure, an error status or an unreadable body,
  with the detail \<open>detail k\<close> at attempt \<open>k + 1\<close>), the fetch makes exactly 5 calls and
  returns the error \<open>API request failed after 5 attempts: Request failed: <detail>\<close>
  with the detail of the last attempt.
\<close>

theorem get_data_directly_exhausts_retries:
  assumes "api_url_match u"
    and "\<forall>k<5. checked_json (srv (trace @ replicate k (GET (get_url cfg u) None))
                               (GET (get_url cfg u) None))
                 = Request_failed (detail k)"
  shows "get_data_directly cfg lib srv trace (PStr u)
           = (Inr (error_dict (''API request failed after 5 attempts: Request failed: ''
                               @ detail 4)),
              trace @ replicate 5 (GET (get_url cfg u) None))"
proof -
  have fails: "\<forall>k < Suc 5 - 1.
           (case fst (get_api cfg srv (trace @ replicate k (GET (get_url cfg u) None)) (PStr u) None) of
              Inl e \<Rightarrow> True | Inr response \<Rightarrow> is_error_response response)"
    using assms(2) by (simp add: get_api_str is_error_response_def error_dict_def dict_get_def)
  have last: "fst (get_api cfg srv (trace @ replicate (5 - 1) (GET (get_url cfg u) None)) (PStr u) None)
                = Inr (PDict (error_dict (''Request failed: '' @ detail 4)))"
    using assms(2) by (simp add: get_api_str)
  have five: "str_nat 5 = ''5''"
    by (simp add: digit_def)
  have loop: "fetch_loop cfg lib srv trace (PStr u) 5 1 =
           ((case fst (get_api cfg srv (trace @ replicate (5 - 1) (GET (get_url cfg u) None))
                         (PStr u) None) of
               Inl e \<Rightarrow> error_dict (''GET request failed after '' @ str_nat 5
                                     @ '' attempts: '' @ exn_str lib e)
             | Inr response \<Rightarrow> error_dict (''API request failed after '' @ str_nat 5
                                     @ '' attempts: '' @ py_str lib (response_error response))),
            trace @ replicate (Suc 5 - 1) (GET (get_url cfg u) None))"
    by (rule fetch_loop_all_fail) (use fails in simp_all)
  have "fetch_loop cfg lib srv trace (PStr u) 5 1
          = (error_dict (''API request failed after 5 attempts: Request failed: '' @ detail 4),
             trace @ replicate 5 (GET (get_url cfg u) None))"
    unfolding loop last
    by (simp add: five response_error_def error_dict_def dict_get_def py_str_def
             del: str_nat.simps)
  then show ?thesis
    using assms(1) api_url_match_nonempty [OF assms(1)]
    by (simp add: get_data_directly_str)
qed

theorem get_data_directly_exhausts_retries_witness:
  "api_url_match ''/api/dcim/sites/''
   \<and> map (\<lambda>k. checked_json (always (Request_exception ''timed out'')
                  ([] @ replicate k (GET (get_url example_cfg ''/api/dcim/sites/'') None))
                  (GET (get_url example_cfg ''/api/dcim/sites/'') None))) [0, 1, 2, 3, 4]
       = [Request_failed ''timed out'', Request_failed ''timed out'', Request_failed ''timed out'',
          Request_failed ''timed out'', Request_failed ''timed out'']
   \<and> get_data_directly example_cfg example_lib (always (Request_exception ''timed out'')) []
         (PStr ''/api/dcim/sites/'')
       = (Inr (error_dict ''API request failed after 5 attempts: Request failed: timed out''),
          replicate 5 (GET ''http://netbox.local/api/dcim/sites/'' None))"
proof -
  have h: "\<forall>k<5. checked_json (always (Request_exception ''timed out'')
                  ([] @ replicate k (GET (get_url example_cfg ''/api/dcim/sites/'') None))
                  (GET (get_url example_cfg ''/api/dcim/sites/'') None))
               = Request_failed ''timed out''"
    by (simp add: always_def checked_json_def)
  have url: "get_url example_cfg ''/api/dcim/sites/'' = ''http://netbox.local/api/dcim/sites/''"
    by (simp add: get_url_def example_cfg_def netbox_def py_rstrip_def py_lstrip_def)
  show ?thesis
    using get_data_directly_exhausts_retries
            [OF api_url_match_sites, of "always (Request_exception ''timed out'')" "[]"
                example_cfg "\<lambda>k. ''timed out''" example_lib, OF h]
          api_url_match_sites
    by (simp add: url always_def checked_json_def)
qed

section \<open>Properties of the lookup-then-delete handler\<close>

lemma delete_try_count_zero:
  assumes "fst (get_api cfg srv trace (PStr u) (Some [(''name'', name)])) = Inr (PDict lr)"
    and "eq_zero (dict_get lr ''count'' (PInt 0))"
  shows "delete_try cfg lib srv trace (PStr u) name
           = (Inr (no_resource_found lib (PStr u) name),
              trace @ [GET (get_url cfg u) (Some [(''name'', name)])])"
proof -
  have "get_api cfg srv trace (PStr u) (Some [(''name'', name)])
          = (Inr (PDict lr), trace @ [GET (get_url cfg u) (Some [(''name'', name)])])"
    using assms(1) by (simp add: get_api_str)
  then show ?thesis
    using assms(2) by (simp add: delete_try_def)
qed

lemma delete_data_handler_request:
  assumes "delete_request lib input_data0 u name"
  shows "delete_data_handler cfg lib srv trace input_data0
           = (case delete_try cfg lib srv trace (PStr u) name of
                (Inl e, trace') \<Rightarrow>
                  (Inr (error_dict (''Error deleting data: '' @ exn_str lib e)), trace')
              | (Inr result, trace') \<Rightarrow> (Inr result, trace'))"
  using assms
  by (auto simp: delete_request_def delete_data_handler_def Let_def split: pyval.splits)

lemma no_resource_found_message:
  "no_resource_found lib (PStr u) name
     = error_dict (''No resource found at '' @ sq @ u @ sq @ '' with name '' @ sq
                   @ py_str lib name @ sq @ ''.'')"
  by (simp add: no_resource_found_def py_str_def)

lemma bell_canada_request:
  "delete_request example_lib bell_canada ''/api/circuits/providers/'' (PStr ''Bell Canada'')"
  by (simp add: delete_request_def bell_canada_def validate_tool_input_def validate_loop_small
        has_key_def dict_get_def)

lemma providers_url:
  "get_url example_cfg ''/api/circuits/providers/'' = ''http://netbox.local/api/circuits/providers/''"
  by (simp add: get_url_def example_cfg_def netbox_def py_rstrip_def py_lstrip_def)

text \<open>
  C3. A delete request whose lookup is answered with a match count of zero ends with
  the error \<open>No resource found at '<api_url>' with name '<name>'.\<close> for the requested
  name. The lookup GET is the only call made: no DELETE is added to the trace.
\<close>

theorem delete_data_handler_zero_matches:
  assumes "delete_request lib input_data0 u name"
    and "checked_json (srv trace (GET (get_url cfg u) (Some [(''name'', name)]))) = Body (PDict lr)"
    and "map_of lr ''count'' = Some (PInt 0)"
  shows "delete_data_handler cfg lib srv trace input_data0
           = (Inr (error_dict (''No resource found at '' @ sq @ u @ sq @ '' with name '' @ sq
                               @ py_str lib name @ sq @ ''.'')),
              trace @ [GET (get_url cfg u) (Some [(''name'', name)])])
         \<and> filter is_delete (snd (delete_data_handler cfg lib srv trace input_data0))
             = filter is_delete trace"
proof -
  have "fst (get_api cfg srv trace (PStr u) (Some [(''name'', name)])) = Inr (PDict lr)"
    using assms(2) by (simp add: get_api_str)
  moreover have "eq_zero (dict_get lr ''count'' (PInt 0))"
    using assms(3) by (simp add: dict_get_def)
  ultimately have "delete_try cfg lib srv trace (PStr u) name
           = (Inr (no_resource_found lib (PStr u) name),
              trace @ [GET (get_url cfg u) (Some [(''name'', name)])])"
    by (rule delete_try_count_zero)
  then show ?thesis
    by (simp add: delete_data_handler_request [OF assms(1)] no_resource_found_message
          is_delete_def)
qed

theorem delete_data_handler_zero_matches_witness:
  "delete_request example_lib bell_canada ''/api/circuits/providers/'' (PStr ''Bell Canada'')
   \<and> delete_data_handler example_cfg example_lib
         (always (json_response 200 (PDict [(''count'', PInt 0), (''results'', PList [])]))) []
         bell_canada
       = (Inr (error_dict
            (''No resource found at '' @ sq @ ''/api/circuits/providers/'' @ sq
             @ '' with name '' @ sq @ ''Bell Canada'' @ sq @ ''.'')),
          [GET ''http://netbox.local/api/circuits/providers/''
               (Some [(''name'', PStr ''Bell Canada'')])])"
  using delete_data_handler_zero_matches
          [OF bell_canada_request,
           of "always (json_response 200 (PDict [(''count'', PInt 0), (''results'', PList [])]))"
              "[]" example_cfg "[(''count'', PInt 0), (''results'', PList [])]"]
        bell_canada_request
  by (simp add: providers_url always_def json_response_def checked_json_def raise_for_status_def
        py_str_def)

text \<open>
  C9. When the lookup GET itself fails, \<open>get_api\<close> returns the error mapping
  \<open>{"error": "Request failed: <detail>"}\<close>, which has no \<open>count\<close> key. The handler
  reads the missing count as zero and returns the same \<open>No resource found\<close> error,
  in which the detail of the failure does not appear; no DELETE is made.
\<close>

theorem delete_data_handler_lookup_failed:
  assumes "delete_request lib input_data0 u name"
    and "checked_json (srv trace (GET (get_url cfg u) (Some [(''name'', name)])))
           = Request_failed detail"
  shows "fst (get_api cfg srv trace (PStr u) (Some [(''name'', name)]))
           = Inr (PDict (error_dict (''Request failed: '' @ detail)))
         \<and> \<not> has_key (error_dict (''Request failed: '' @ detail)) ''count''
         \<and> delete_data_handler cfg lib srv trace input_data0
           = (Inr (error_dict (''No resource found at '' @ sq @ u @ sq @ '' with name '' @ sq
                               @ py_str lib name @ sq @ ''.'')),
              trace @ [GET (get_url cfg u) (Some [(''name'', name)])])
         \<and> filter is_delete (snd (delete_data_handler cfg lib srv trace input_data0))
             = filter is_delete trace"
proof -
  have g: "fst (get_api cfg srv trace (PStr u) (Some [(''name'', name)]))
          = Inr (PDict (error_dict (''Request failed: '' @ detail)))"
    using assms(2) by (simp add: get_api_str)
  moreover have "eq_zero (dict_get (error_dict (''Request failed: '' @ detail)) ''count'' (PInt 0))"
    by (simp add: dict_get_def error_dict_def)
  ultimately have "delete_try cfg lib srv trace (PStr u) name
           = (Inr (no_resource_found lib (PStr u) name),
              trace @ [GET (get_url cfg u) (Some [(''name'', name)])])"
    by (rule delete_try_count_zero)
  then show ?thesis
    using g
    by (simp add: delete_data_handler_request [OF assms(1)] no_resource_found_message
          is_delete_def has_key_def error_dict_def)
qed

theorem delete_data_handler_lookup_failed_witness:
  "delete_request example_lib bell_canada ''/api/circuits/providers/'' (PStr ''Bell Canada'')
   \<and> delete_data_handler example_cfg example_lib (always (Request_exception ''timed out'')) []
         bell_canada
       = (Inr (error_dict
            (''No resource found at '' @ sq @ ''/api/circuits/providers/'' @ sq
             @ '' with name '' @ sq @ ''Bell Canada'' @ sq @ ''.'')),
          [GET ''http://netbox.local/api/circuits/providers/''
               (Some [(''name'', PStr ''Bell Canada'')])])"
  using delete_data_handler_lookup_failed
          [OF bell_canada_request,
           of "always (Request_exception ''timed out'')" "[]" example_cfg "''timed out''"]
        bell_canada_request
  by (simp add: providers_url always_def checked_json_def py_str_def)

section \<open>Properties of the vulnerability query\<close>

lemma get_json_eq:
  "get_json srv trace url = (checked_json (srv trace (GET url None)), trace @ [GET url None])"
  by (simp add: get_json_def http_def)

lemma py_lower_nonempty: "py_lower s = [] \<longleftrightarrow> s = []"
  by (simp add: py_lower_def)

lemma vendor_alias_nonempty: "vendor_alias x = [] \<longleftrightarrow> x = []"
  by (auto simp: vendor_alias_def vendor_mapping_def split: option.splits if_splits)

lemma fetch_cves_request:
  assumes "cve_request cfg lib input_data0 v w"
  shows "fetch_cves_from_opencve cfg lib srv trace input_data0
           = (case query_cves srv trace (vendor_alias (py_lower (py_strip v))) (py_strip w) of
                (Body result, trace') \<Rightarrow> (Inr result, trace')
              | (Request_failed e, trace') \<Rightarrow>
                  (Inr (error_dict ''Failed to fetch CVEs from OpenCVE.''), trace')
              | (Raised x, trace') \<Rightarrow> (Inl x, trace'))"
proof -
  from assms obtain d where d: "parse_cve_input lib input_data0 = Some (PDict d)"
    and f: "dict_get d ''vendor'' (PStr []) = PStr v" "dict_get d ''version'' (PStr []) = PStr w"
    and ne: "py_strip v \<noteq> []" "py_strip w \<noteq> []"
    and cr: "opencve_user cfg \<notin> {None, Some []}" "opencve_password cfg \<notin> {None, Some []}"
    by (auto simp: cve_request_def split: option.splits pyval.splits)
  show ?thesis
    using f ne cr
    by (auto simp: fetch_cves_from_opencve_def d str_field_def Let_def
          vendor_alias_nonempty py_lower_nonempty)
qed

lemma query_cves_first_call:
  "\<exists>rest. snd (query_cves srv trace vendor version)
            = trace @ GET (cve_url vendor version) None # rest"
  by (auto simp: query_cves_def get_json_eq split: fetched.splits pyval.splits)

lemma query_cves_zero_results:
  assumes "checked_json (srv trace (GET (cve_url vendor version) None)) = Body (PDict jr)"
    and "eq_zero (dict_get jr ''count'' (PInt 0))"
  shows "snd (query_cves srv trace vendor version)
           = trace @ (if fallback_version version = version
                      then [GET (cve_url vendor version) None]
                      else [GET (cve_url vendor version) None,
                            GET (cve_url vendor (fallback_version version)) None])"
  using assms
  by (auto simp: query_cves_def get_json_eq split: fetched.splits)

lemma snd_case_fetched:
  "snd (case p of (Body result, t) \<Rightarrow> (f result, t)
                | (Request_failed e, t) \<Rightarrow> (g e, t)
                | (Raised x, t) \<Rightarrow> (h x, t)) = snd p"
  by (cases p) (auto split: fetched.splits)

lemma fallback_21_4R5: "fallback_version ''21.4R5'' = ''21.4R5''"
  by (simp add: fallback_version_def)

lemma fallback_21_4_5: "fallback_version ''21.4.5'' = ''21.4''"
  by (simp add: fallback_version_def)

lemma strip_simps:
  "py_strip ''Juniper Networks'' = ''Juniper Networks''"
  "py_strip ''21.4R5'' = ''21.4R5''"
  "py_strip ''21.4.5'' = ''21.4.5''"
  by (simp_all add: py_strip_def is_space_def)

lemma lower_juniper: "py_lower ''Juniper Networks'' = ''juniper networks''"
  by (simp add: py_lower_def lower_char_def upper_letters_def lower_letters_def
        upper_latin_def lower_latin_def)

lemma alias_juniper: "vendor_alias ''juniper networks'' = ''juniper''"
  by (simp add: vendor_alias_def vendor_mapping_def)

lemma junos_request:
  "cve_request example_cfg example_lib (junos_query ''21.4R5'') ''Juniper Networks'' ''21.4R5''"
  "cve_request example_cfg example_lib (junos_query ''21.4.5'') ''Juniper Networks'' ''21.4.5''"
  by (simp_all add: cve_request_def parse_cve_input_def junos_query_def dict_get_def strip_simps
        example_cfg_def)

lemma no_results_body:
  "checked_json (always no_results trace req) = Body (PDict [(''count'', PInt 0), (''results'', PList [])])"
  by (simp add: always_def no_results_def json_response_def checked_json_def raise_for_status_def)

lemma vendor_strips:
  "py_strip '' Foo'' = ''Foo''"
  "py_strip ''  JUNIPER networks '' = ''JUNIPER networks''"
  "py_strip ''1.0'' = ''1.0''"
  by (simp_all add: py_strip_def is_space_def)

lemma vendor_lowers:
  "py_lower ''Foo'' = ''foo''"
  "py_lower '' Foo'' = '' foo''"
  "py_lower ''JUNIPER networks'' = ''juniper networks''"
  by (simp_all add: py_lower_def lower_char_def upper_letters_def lower_letters_def
        upper_latin_def lower_latin_def)

lemma vendor_requests:
  "cve_request example_cfg example_lib (vendor_query '' Foo'') '' Foo'' ''1.0''"
  "cve_request example_cfg example_lib (vendor_query ''  JUNIPER networks '')
     ''  JUNIPER networks '' ''1.0''"
  by (simp_all add: cve_request_def parse_cve_input_def vendor_query_def dict_get_def
        vendor_strips example_cfg_def)

lemma alias_foo: "vendor_alias ''foo'' = ''foo''"
  by (simp add: vendor_alias_def vendor_mapping_def)

lemma query_cves_no_results_21_4R5:
  "query_cves (always no_results) [] ''juniper'' ''21.4R5''
     = (Body [(''message'', PStr ''No CVEs found for juniper 21.4R5.'')],
        [GET (cve_url ''juniper'' ''21.4R5'') None])"
  by (simp add: query_cves_def get_json_eq no_results_body dict_get_def fallback_21_4R5
        extract_cves_def lift_exn_def)

text \<open>
  C2. The query for the version \<open>21.4R5\<close> that finds nothing is claimed to be retried
  once with the version broadened to \<open>21.4\<close>, and the comment of the code announces as
  much (\<open>try a fallback version (drop patch number)\<close>). The code cuts the version at its
  dots: the first two components of \<open>21.4R5\<close> are \<open>21\<close> and \<open>4R5\<close>, the fallback
  version is \<open>21.4R5\<close> again, and the retry is skipped. With a database that finds
  nothing, the exact query is the only request and the answer is that no CVE was found;
  no request for the version \<open>21.4\<close> is made.
\<close>

theorem fetch_cves_21_4R5_not_broadened:
  "fetch_cves_from_opencve example_cfg example_lib (always no_results) [] (junos_query ''21.4R5'')
     = (Inr [(''message'', PStr ''No CVEs found for juniper 21.4R5.'')],
        [GET ''https://app.opencve.io/api/cve?vendor=juniper&version=21.4R5'' None])
   \<and> GET ''https://app.opencve.io/api/cve?vendor=juniper&version=21.4'' None
       \<notin> set (snd (fetch_cves_from_opencve example_cfg example_lib (always no_results) []
                      (junos_query ''21.4R5'')))"
proof -
  have "fetch_cves_from_opencve example_cfg example_lib (always no_results) []
          (junos_query ''21.4R5'')
     = (Inr [(''message'', PStr ''No CVEs found for juniper 21.4R5.'')],
        [GET ''https://app.opencve.io/api/cve?vendor=juniper&version=21.4R5'' None])"
    unfolding fetch_cves_request [OF junos_request(1)] strip_simps lower_juniper alias_juniper
      query_cves_no_results_21_4R5
    by (simp add: cve_url_def)
  then show ?thesis by simp
qed

text \<open>
  The rule the code follows, for any version: when the exact query finds nothing, the
  version cut to its first two dot-separated components is compared with the version
  asked for. If they are equal the exact query is the only request; if they differ, as
  for \<open>21.4.5\<close> (cut to \<open>21.4\<close>), exactly one more request is made, for the cut
  version, and none after it, whatever the second answer is.
\<close>

lemma fallback_issued_once:
  assumes "cve_request cfg lib input_data0 v w"
    and "checked_json (srv trace (GET (cve_url (vendor_alias (py_lower (py_strip v)))
                                               (py_strip w)) None))
           = Body (PDict jr)"
    and "eq_zero (dict_get jr ''count'' (PInt 0))"
  shows "snd (fetch_cves_from_opencve cfg lib srv trace input_data0)
           = trace @ (if fallback_version (py_strip w) = py_strip w
                      then [GET (cve_url (vendor_alias (py_lower (py_strip v))) (py_strip w)) None]
                      else [GET (cve_url (vendor_alias (py_lower (py_strip v))) (py_strip w)) None,
                            GET (cve_url (vendor_alias (py_lower (py_strip v)))
                                         (fallback_version (py_strip w))) None])
         \<and> fallback_version ''21.4R5'' = ''21.4R5''
         \<and> fallback_version ''21.4.5'' = ''21.4''"
  unfolding fetch_cves_request [OF assms(1)] snd_case_fetched
  using query_cves_zero_results
          [of srv trace "vendor_alias (py_lower (py_strip v))" "py_strip w" jr,
           OF assms(2,3)]
  by (simp add: fallback_21_4R5 fallback_21_4_5)

lemma fallback_issued_once_examples:
  "snd (fetch_cves_from_opencve example_cfg example_lib (always no_results) []
          (junos_query ''21.4.5''))
     = [GET ''https://app.opencve.io/api/cve?vendor=juniper&version=21.4.5'' None,
        GET ''https://app.opencve.io/api/cve?vendor=juniper&version=21.4'' None]
   \<and> snd (fetch_cves_from_opencve example_cfg example_lib (always no_results) []
          (junos_query ''21.4R5''))
     = [GET ''https://app.opencve.io/api/cve?vendor=juniper&version=21.4R5'' None]"
  using fallback_issued_once
          [of example_cfg example_lib "junos_query ''21.4.5''" "''Juniper Networks''" "''21.4.5''"
              "always no_results" "[]" "[(''count'', PInt 0), (''results'', PList [])]",
           OF junos_request(2)]
        fallback_issued_once
          [of example_cfg example_lib "junos_query ''21.4R5''" "''Juniper Networks''" "''21.4R5''"
              "always no_results" "[]" "[(''count'', PInt 0), (''results'', PList [])]",
           OF junos_request(1)]
  by (simp add: strip_simps lower_juniper alias_juniper dict_get_def fallback_21_4_5
        fallback_21_4R5 cve_url_def no_results_body)

text \<open>
  C8, as stated, fails. The vendor \<open>" Foo"\<close> is in no letter case a key of the alias
  table, and it is queried as \<open>foo\<close>, which is not its lowercased form \<open>" foo"\<close>: the
  code strips the surrounding whitespace as well.
\<close>

theorem vendor_whitespace_counterexample:
  "map_of vendor_mapping (py_lower '' Foo'') = None
   \<and> snd (fetch_cves_from_opencve example_cfg example_lib (always no_results) []
            (vendor_query '' Foo''))
       = [GET (cve_url ''foo'' ''1.0'') None]
   \<and> cve_url ''foo'' ''1.0'' \<noteq> cve_url (py_lower '' Foo'') ''1.0''"
proof -
  have "snd (fetch_cves_from_opencve example_cfg example_lib (always no_results) []
            (vendor_query '' Foo''))
       = [GET (cve_url ''foo'' ''1.0'') None]"
    unfolding fetch_cves_request [OF vendor_requests(1)] snd_case_fetched
      vendor_strips vendor_lowers alias_foo
    using query_cves_zero_results
            [of "always no_results" "[]" "''foo''" "''1.0''"
                "[(''count'', PInt 0), (''results'', PList [])]", OF no_results_body]
    by (simp add: dict_get_def fallback_version_def)
  then show ?thesis
    by (simp add: vendor_lowers vendor_mapping_def cve_url_def)
qed

text \<open>
  C8, amended. The vendor is stripped of surrounding whitespace and lowercased, then
  looked up in the fixed alias table, before the first request is made. A vendor whose
  stripped, lowercased form is \<open>juniper networks\<close> is queried as \<open>juniper\<close>; one whose
  stripped, lowercased form is no key of the table is queried as that form.
\<close>

theorem vendor_normalized_before_query:
  assumes "cve_request cfg lib input_data0 v w"
  shows "take 1 (drop (length trace) (snd (fetch_cves_from_opencve cfg lib srv trace input_data0)))
           = [GET (cve_url (vendor_alias (py_lower (py_strip v))) (py_strip w)) None]
         \<and> (py_lower (py_strip v) = ''juniper networks''
              \<longrightarrow> vendor_alias (py_lower (py_strip v)) = ''juniper'')
         \<and> (map_of vendor_mapping (py_lower (py_strip v)) = None
              \<longrightarrow> vendor_alias (py_lower (py_strip v)) = py_lower (py_strip v))"
proof -
  obtain rest where
    "snd (query_cves srv trace (vendor_alias (py_lower (py_strip v))) (py_strip w))
       = trace @ GET (cve_url (vendor_alias (py_lower (py_strip v))) (py_strip w)) None # rest"
    using query_cves_first_call by blast
  then have "take 1 (drop (length trace)
                (snd (fetch_cves_from_opencve cfg lib srv trace input_data0)))
           = [GET (cve_url (vendor_alias (py_lower (py_strip v))) (py_strip w)) None]"
    unfolding fetch_cves_request [OF assms] snd_case_fetched by simp
  moreover have "py_lower (py_strip v) = ''juniper networks''
              \<longrightarrow> vendor_alias (py_lower (py_strip v)) = ''juniper''"
    by (simp add: alias_juniper)
  moreover have "map_of vendor_mapping (py_lower (py_strip v)) = None
              \<longrightarrow> vendor_alias (py_lower (py_strip v)) = py_lower (py_strip v)"
    by (simp add: vendor_alias_def)
  ultimately show ?thesis by blast
qed

lemma latin_strips:
  "py_strip padded_juniper = ''JUNIPER networks''"
  "py_strip [CHR 0xA0] = []"
  "py_strip ecole = ecole"
  by (simp_all add: py_strip_def is_space_def padded_juniper_def ecole_def)

lemma latin_lowers:
  "py_lower ecole = CHR 0xE9 # ''cole''"
  by (simp_all add: py_lower_def lower_char_def upper_letters_def lower_letters_def
        upper_latin_def lower_latin_def ecole_def)

lemma ecole_nonempty: "ecole \<noteq> []"
  by (simp add: ecole_def)

lemma latin_requests:
  "cve_request example_cfg example_lib (vendor_query padded_juniper) padded_juniper ''1.0''"
  "cve_request example_cfg example_lib (vendor_query ecole) ecole ''1.0''"
  by (simp_all add: cve_request_def parse_cve_input_def vendor_query_def dict_get_def
        vendor_strips latin_strips example_cfg_def ecole_nonempty)

lemma alias_ecole: "vendor_alias (CHR 0xE9 # ''cole'') = CHR 0xE9 # ''cole''"
  by (simp add: vendor_alias_def vendor_mapping_def)

theorem vendor_normalized_before_query_witness:
  "take 1 (snd (fetch_cves_from_opencve example_cfg example_lib (always no_results) []
                  (vendor_query padded_juniper)))
     = [GET ''https://app.opencve.io/api/cve?vendor=juniper&version=1.0'' None]
   \<and> take 1 (snd (fetch_cves_from_opencve example_cfg example_lib (always no_results) []
                  (vendor_query ecole)))
     = [GET (''https://app.opencve.io/api/cve?vendor='' @ CHR 0xE9 # ''cole&version=1.0'') None]
   \<and> take 1 (snd (fetch_cves_from_opencve example_cfg example_lib (always no_results) []
                  (vendor_query '' Foo'')))
     = [GET ''https://app.opencve.io/api/cve?vendor=foo&version=1.0'' None]"
  using vendor_normalized_before_query [OF latin_requests(1), of "[]" "always no_results"]
        vendor_normalized_before_query [OF latin_requests(2), of "[]" "always no_results"]
        vendor_normalized_before_query [OF vendor_requests(1), of "[]" "always no_results"]
  by (simp add: vendor_strips vendor_lowers latin_strips latin_lowers alias_juniper alias_foo
        alias_ecole cve_url_def)

text \<open>A vendor that is whitespace only, U+00A0 included, is blank: nothing is queried.\<close>

lemma blank_vendor_not_queried:
  "fetch_cves_from_opencve example_cfg example_lib (always no_results) []
     (vendor_query [CHR 0xA0])
     = (Inr (error_dict ''Missing 'vendor' or 'version' field.''), [])"
  by (simp add: fetch_cves_from_opencve_def parse_cve_input_def vendor_query_def str_field_def
        dict_get_def latin_strips py_lower_def vendor_alias_def vendor_mapping_def)

lemma format_cve_record:
  "is_cve_record r \<Longrightarrow>
   format_cve r = Inr (PDict [(''cve_id'', cve_id_of r),
                              (''description'', PStr (take 200 (description_of r) @ ''...''))])"
  by (auto simp: is_cve_record_def format_cve_def getitem_str_def cve_id_of_def description_of_def
           split: pyval.splits option.splits)

lemma format_all_records:
  "\<forall>r\<in>set xs. is_cve_record r \<Longrightarrow>
   format_all xs
     = Inr (map (\<lambda>r. PDict [(''cve_id'', cve_id_of r),
                             (''description'', PStr (take 200 (description_of r) @ ''...''))]) xs)"
  by (induction xs) (simp_all add: format_cve_record)

text \<open>
  C7, as stated, fails. A description of 201 characters is returned as its first 200
  characters followed by \<open>...\<close>, 203 characters in all: the returned field is not
  within the cap of 200.
\<close>

theorem description_longer_than_cap_counterexample:
  "extract_cves ''juniper'' ''21.4'' long_cve
     = Inr [(''cve_count'', PInt 1),
            (''cves'', PList [PDict [(''cve_id'', PStr ''CVE-2024-0001''),
                                     (''description'',
                                      PStr (replicate 200 (CHR ''a'') @ ''...''))]])]
   \<and> length (replicate 200 (CHR ''a'') @ ''...'') = 203"
  by (simp add: extract_cves_def long_cve_def dict_get_def first_10_def format_cve_def
        getitem_str_def)

text \<open>
  C7, amended. For a response whose \<open>results\<close> is a non-empty list of records (each of
  the first ten with a \<open>cve_id\<close> and a string \<open>description\<close>) and which has a \<open>count\<close>,
  the normalizer returns the first ten records at most, and the description of each is
  the first 200 characters of the original one followed by \<open>...\<close>, hence at most 203
  characters long.
\<close>

theorem extract_cves_caps:
  assumes "map_of jr ''results'' = Some (PList records)" "records \<noteq> []"
    and "\<forall>r\<in>set (take 10 records). is_cve_record r"
    and "map_of jr ''count'' = Some n"
  shows "extract_cves vendor version (PDict jr)
           = Inr [(''cve_count'', n),
                  (''cves'', PList (map (\<lambda>r. PDict [(''cve_id'', cve_id_of r),
                                       (''description'',
                                        PStr (take 200 (description_of r) @ ''...''))])
                                    (take 10 records)))]
         \<and> length (take 10 records) \<le> 10
         \<and> (\<forall>r. length (take 200 (description_of r) @ ''...'') \<le> 203)"
  using assms
  by (simp add: extract_cves_def dict_get_def first_10_def format_all_records getitem_str_def)

lemma numbered_cve_record: "is_cve_record (numbered_cve i)"
  by (simp add: is_cve_record_def numbered_cve_def)

lemma upt_12: "[0..<12] = [0, 1, 2, 3, 4, 5, 6, 7, 8, 9, 10, 11]"
  by (simp add: upt_rec)

theorem extract_cves_caps_witness:
  "extract_cves ''juniper'' ''21.4'' (PDict twelve_cves)
     = Inr [(''cve_count'', PInt 12),
            (''cves'',
             PList (map (\<lambda>i. PDict [(''cve_id'', PStr (''CVE-2024-'' @ str_nat i)),
                                     (''description'',
                                      PStr (replicate 200 (CHR ''a'') @ ''...''))])
                        [0, 1, 2, 3, 4, 5, 6, 7, 8, 9]))]
   \<and> length (map numbered_cve [0, 1, 2, 3, 4, 5, 6, 7, 8, 9, 10, 11]) = 12
   \<and> length (replicate 250 (CHR ''a'')) = 250"
proof -
  have records: "\<forall>r\<in>set (take 10 (map numbered_cve [0..<12])). is_cve_record r"
    by (auto dest!: in_set_takeD simp: numbered_cve_record)
  have "extract_cves ''juniper'' ''21.4'' (PDict twelve_cves)
          = Inr [(''cve_count'', PInt 12),
                 (''cves'', PList (map (\<lambda>r. PDict [(''cve_id'', cve_id_of r),
                                      (''description'',
                                       PStr (take 200 (description_of r) @ ''...''))])
                                   (take 10 (map numbered_cve [0..<12]))))]"
    using extract_cves_caps [of twelve_cves "map numbered_cve [0..<12]" "PInt 12"
                                "''juniper''" "''21.4''", OF _ _ records]
    by (simp add: twelve_cves_def)
  then show ?thesis
    by (simp add: upt_12 numbered_cve_def cve_id_of_def description_of_def getitem_str_def
             del: str_nat.simps)
qed

end
